theory Spec2Isabelle
  imports Main
begin

section \<open>JavaScript values used by both components\<close>

text \<open>
  Both widgets build strings by concatenating numbers with text (\<^verbatim>\<open>'pageSize=' + n\<close>,
  \<^verbatim>\<open>[...].join('')\<close>). \<open>number_toString\<close> is JavaScript's conversion of an integral
  number to its decimal string.
\<close>

definition digit_char :: "nat \<Rightarrow> char" where
  "digit_char d = ''0123456789'' ! d"

function nat_toString :: "nat \<Rightarrow> string" where
  "nat_toString n =
     (if n < 10 then [digit_char n] else nat_toString (n div 10) @ [digit_char (n mod 10)])"
  by pat_completeness auto
termination
  by (relation "measure id") auto

declare nat_toString.simps [simp del]

definition number_toString :: "int \<Rightarrow> string" where
  "number_toString i =
     (if i < 0 then CHR ''-'' # nat_toString (nat (- i)) else nat_toString (nat i))"

text \<open>\<^verbatim>\<open>Array.prototype.indexOf\<close>: the first position of an element, or \<open>-1\<close>.\<close>

fun indexOf :: "'a list \<Rightarrow> 'a \<Rightarrow> int" where
  "indexOf [] x = - 1"
| "indexOf (y # ys) x =
     (if y = x then 0 else (let i = indexOf ys x in if i < 0 then - 1 else i + 1))"

text \<open>\<^verbatim>\<open>String.prototype.indexOf(c) !== -1\<close> for a one-character needle.\<close>

definition contains_char :: "string \<Rightarrow> char \<Rightarrow> bool" where
  "contains_char str c = (indexOf str c \<noteq> - 1)"


section \<open>The data grid (datagrid/main.js)\<close>

subsection \<open>Data\<close>

text \<open>
  Item identifiers are the integers \<^verbatim>\<open>parseInt(row.id, 10)\<close> stores in
  \<^verbatim>\<open>allItemIds\<close> and jQuery's \<^verbatim>\<open>data('id')\<close> reads back from a row;
  \<open>None\<close> is JavaScript's \<^verbatim>\<open>undefined\<close> (a row without \<^verbatim>\<open>data-id\<close>).

  The two id arrays are JavaScript objects: \<^verbatim>\<open>push\<close>, \<^verbatim>\<open>pop\<close> and
  \<^verbatim>\<open>splice\<close> change an array in place, \<^verbatim>\<open>[]\<close> and \<^verbatim>\<open>slice(0)\<close> make a new
  one. The component's fields therefore hold references into a store of arrays.
\<close>

type_synonym ref = nat
type_synonym item_id = int

text \<open>What a handler reads from a DOM event: the \<^verbatim>\<open>type\<close> attribute of the input the
  click resolves to and the \<^verbatim>\<open>data-id\<close> of the enclosing table row.\<close>

record dom_event =
  input_type :: "string option"
  row_id :: "item_id option"

text \<open>\<^verbatim>\<open>removeRow\<close> is called with a DOM event (a click) or with an id (from the
  \<^verbatim>\<open>row.remove\<close> subscription).\<close>

datatype row_arg = RowEvent dom_event | RowId item_id

text \<open>The arguments \<^verbatim>\<open>sandbox.emit\<close> is called with after the event name.\<close>

datatype emit_arg =
  ArgNull | ArgId item_id | ArgEvent dom_event | ArgArray ref

type_synonym emitted_event = "string \<times> emit_arg list"

text \<open>A row of the loaded data, as far as the id arrays depend on it: \<^verbatim>\<open>row.id\<close>.\<close>

record table_row =
  tr_id :: "item_id option"

text \<open>\<^verbatim>\<open>data.links.sortable\<close> maps a column attribute to the URI template of its sort
  link.\<close>

record grid_links =
  sortable :: "(string \<rightharpoonup> string) option"

record grid_data =
  links :: "grid_links option"
  items :: "table_row list"

text \<open>The options the modelled functions read: \<^verbatim>\<open>options.pagination\<close>,
  \<^verbatim>\<open>options.paginationOptions.pageSize\<close> (\<open>None\<close> for \<^verbatim>\<open>null\<close>) and
  \<^verbatim>\<open>options.template.row\<close>.\<close>

record grid_options =
  pagination :: bool
  pageSize :: "int option"
  template_row :: "string option"

text \<open>The argument of \<^verbatim>\<open>load\<close>. \<open>params_page\<close> is \<open>None\<close> when the caller passes no
  page number; \<open>params_success\<close> is the message the caller's success callback emits with
  the updated event, if the caller passes a callback.\<close>

record load_params =
  params_url :: string
  params_page :: "int option"
  params_success :: "string option"

text \<open>The component: its fields, the store of arrays, the part of the rendered header
  that sorting reads (the classes of the span in the header of each attribute), and what
  it has emitted, logged and requested so far.\<close>

record grid =
  options :: grid_options
  data :: "grid_data option"
  heap :: "ref \<Rightarrow> item_id list"
  nextRef :: ref
  allItemIds :: ref
  selectedItemIds :: ref
  sort_attribute :: "string option"
  sort_direction :: "string option"
  headerSpanClasses :: "string \<Rightarrow> string list"
  is_loading :: bool
  emitted :: "emitted_event list"
  logged :: "string list list"
  requests :: "string list"

subsection \<open>Event names\<close>

definition namespace :: string where
  "namespace = ''husky.datagrid''"

definition ITEM_DESELECT :: string where
  "ITEM_DESELECT = namespace @ ''item.deselect''"

definition ITEM_SELECT :: string where
  "ITEM_SELECT = namespace @ ''item.select''"

definition ALL_DESELECT :: string where
  "ALL_DESELECT = namespace @ ''all.deselect''"

definition ALL_SELECT :: string where
  "ALL_SELECT = namespace @ ''all.select''"

definition ROW_REMOVED :: string where
  "ROW_REMOVED = namespace @ ''row.removed''"

definition DATA_SORT :: string where
  "DATA_SORT = namespace @ ''data.sort''"

definition emit :: "string \<Rightarrow> emit_arg list \<Rightarrow> grid \<Rightarrow> grid" where
  "emit name args s = s\<lparr>emitted := emitted s @ [(name, args)]\<rparr>"

subsection \<open>Arrays in the store\<close>

definition new_array :: "item_id list \<Rightarrow> grid \<Rightarrow> ref \<times> grid" where
  "new_array xs s =
     (nextRef s, s\<lparr>heap := (heap s)(nextRef s := xs), nextRef := Suc (nextRef s)\<rparr>)"

definition array_push :: "ref \<Rightarrow> item_id \<Rightarrow> grid \<Rightarrow> grid" where
  "array_push r x s = s\<lparr>heap := (heap s)(r := heap s r @ [x])\<rparr>"

text \<open>\<^verbatim>\<open>splice(idx, 1)\<close> for an index inside the array.\<close>

definition array_splice1 :: "ref \<Rightarrow> nat \<Rightarrow> grid \<Rightarrow> grid" where
  "array_splice1 r idx s =
     s\<lparr>heap := (heap s)(r := take idx (heap s r) @ drop (Suc idx) (heap s r))\<rparr>"

text \<open>\<^verbatim>\<open>pop()\<close> yields \<^verbatim>\<open>undefined\<close> on an empty array and leaves it empty.\<close>

definition array_pop :: "ref \<Rightarrow> grid \<Rightarrow> item_id option \<times> grid" where
  "array_pop r s =
     (if heap s r = [] then (None, s)
      else (Some (last (heap s r)), s\<lparr>heap := (heap s)(r := butlast (heap s r))\<rparr>))"

subsection \<open>Selection bookkeeping\<close>

definition resetItemSelection :: "grid \<Rightarrow> grid" where
  "resetItemSelection s =
     (let (a, s1) = new_array [] s;
          s2 = s1\<lparr>allItemIds := a\<rparr>;
          (b, s3) = new_array [] s2
      in s3\<lparr>selectedItemIds := b\<rparr>)"

text \<open>
  \<^verbatim>\<open>selectItem\<close>. In the checkbox branch \<^verbatim>\<open>indexOf(undefined)\<close> is \<open>-1\<close> on an
  array of numbers and \<^verbatim>\<open>!!undefined\<close> is false, so a row without id only emits the
  select event with the DOM event as payload. \<^verbatim>\<open>!!itemId\<close> is \<open>itemId \<noteq> 0\<close> on a number.
\<close>

definition selectItem :: "dom_event \<Rightarrow> grid \<Rightarrow> grid" where
  "selectItem event s =
     (let itemId = row_id event; sel = selectedItemIds s in
      if input_type event = Some ''checkbox'' then
        (case itemId of
           None \<Rightarrow> emit ITEM_SELECT [ArgEvent event] s
         | Some i \<Rightarrow>
             if indexOf (heap s sel) i > - 1 then
               emit ITEM_DESELECT [ArgId i]
                 (array_splice1 sel (nat (indexOf (heap s sel) i)) s)
             else if i \<noteq> 0 then emit ITEM_SELECT [ArgId i] (array_push sel i s)
             else emit ITEM_SELECT [ArgEvent event] s)
      else if input_type event = Some ''radio'' then
        (let (oldSelectionId, s1) = array_pop sel s;
             s2 = (case oldSelectionId of
                     None \<Rightarrow> s1
                   | Some old \<Rightarrow>
                       if old \<noteq> 0 \<and> old > - 1 then emit ITEM_DESELECT [ArgId old] s1
                       else s1)
         in case itemId of
              None \<Rightarrow> emit ITEM_SELECT [ArgEvent event] s2
            | Some i \<Rightarrow>
                if i \<noteq> 0 then emit ITEM_SELECT [ArgId i] (array_push sel i s2)
                else emit ITEM_SELECT [ArgEvent event] s2)
      else s)"

text \<open>
  \<^verbatim>\<open>selectAllItems\<close>. \<^verbatim>\<open>sandbox.util.compare\<close> belongs to the host framework and is
  a parameter; it sees the contents of the two arrays.
\<close>

definition selectAllItems ::
  "(item_id list \<Rightarrow> item_id list \<Rightarrow> bool) \<Rightarrow> grid \<Rightarrow> grid" where
  "selectAllItems compare s =
     (if compare (heap s (selectedItemIds s)) (heap s (allItemIds s)) then
        (let (r, s1) = new_array [] s
         in emit ALL_DESELECT [ArgNull] (s1\<lparr>selectedItemIds := r\<rparr>))
      else
        (let (r, s1) = new_array (heap s (allItemIds s)) s;
             s2 = s1\<lparr>selectedItemIds := r\<rparr>
         in emit ALL_SELECT [ArgArray (selectedItemIds s2)] s2))"

definition row_arg_id :: "row_arg \<Rightarrow> item_id option" where
  "row_arg_id event = (case event of RowEvent e \<Rightarrow> row_id e | RowId i \<Rightarrow> Some i)"

definition row_arg_payload :: "row_arg \<Rightarrow> emit_arg" where
  "row_arg_payload event = (case event of RowEvent e \<Rightarrow> ArgEvent e | RowId i \<Rightarrow> ArgId i)"

definition removeRow :: "row_arg \<Rightarrow> grid \<Rightarrow> grid" where
  "removeRow event s =
     (let idx = (case row_arg_id event of
                   None \<Rightarrow> - 1
                 | Some i \<Rightarrow> indexOf (heap s (selectedItemIds s)) i);
          s1 = (if idx \<ge> 0 then array_splice1 (selectedItemIds s) (nat idx) s else s)
      in emit ROW_REMOVED [row_arg_payload event] s1)"

text \<open>
  \<^verbatim>\<open>prepareTableRow\<close> and \<^verbatim>\<open>prepareTableRows\<close>, as far as they touch the id arrays:
  with a row template the markup comes from the template engine and no id is recorded;
  otherwise \<^verbatim>\<open>!!row.id && this.allItemIds.push(parseInt(row.id, 10))\<close>.
  \<open>prepareTableRows\<close> takes the rows it iterates over (\<^verbatim>\<open>data.items\<close> or
  \<^verbatim>\<open>data.embedded\<close>) as its argument.
\<close>

definition prepareTableRow :: "table_row \<Rightarrow> grid \<Rightarrow> grid" where
  "prepareTableRow row s =
     (if template_row (options s) \<noteq> None \<and> template_row (options s) \<noteq> Some [] then s
      else (case tr_id row of
              None \<Rightarrow> s
            | Some i \<Rightarrow> if i \<noteq> 0 then array_push (allItemIds s) i s else s))"

definition prepareTableRows :: "table_row list \<Rightarrow> grid \<Rightarrow> grid" where
  "prepareTableRows rs s =
     (let (a, s1) = new_array [] s
      in fold prepareTableRow rs (s1\<lparr>allItemIds := a\<rparr>))"

definition addRow :: "table_row \<Rightarrow> grid \<Rightarrow> grid" where
  "addRow row s = prepareTableRow row s"


subsection \<open>Loading\<close>

datatype js_error = TypeError

definition log_entry :: "string list \<Rightarrow> grid \<Rightarrow> grid" where
  "log_entry args s = s\<lparr>logged := logged s @ [args]\<rparr>"

text \<open>
  \<^verbatim>\<open>getUrl\<close>. \<^verbatim>\<open>!!this.data && this.data.links\<close> holds when data is loaded and has
  links; \<^verbatim>\<open>!!pageSize\<close> is false for \<^verbatim>\<open>null\<close> and for \<open>0\<close>; \<^verbatim>\<open>params.page > 1\<close> is
  false when the caller passes no page.
\<close>

definition links_loaded :: "grid \<Rightarrow> bool" where
  "links_loaded s = (case data s of None \<Rightarrow> False | Some d \<Rightarrow> links d \<noteq> None)"

definition getUrl :: "load_params \<Rightarrow> grid \<Rightarrow> string" where
  "getUrl params s =
     (if links_loaded s then params_url params
      else
        (case pageSize (options s) of
           None \<Rightarrow> params_url params
         | Some sz \<Rightarrow>
             if pagination (options s) \<and> sz \<noteq> 0 then
               (let delimiter =
                      (if contains_char (params_url params) CHR ''?'' then ''&'' else ''?'');
                    url = params_url params @ delimiter @ ''pageSize='' @ number_toString sz
                in case params_page params of
                     None \<Rightarrow> url
                   | Some p \<Rightarrow> if p > 1 then url @ ''&page='' @ number_toString p else url)
             else params_url params))"

text \<open>
  \<^verbatim>\<open>load\<close> hands a request to \<^verbatim>\<open>sandbox.util.ajax\<close>; the transport later calls one of
  the two callbacks. The request and the error callback are modelled; \<open>requests\<close> records
  every request issued.
\<close>

definition load :: "load_params \<Rightarrow> grid \<Rightarrow> grid" where
  "load params s = s\<lparr>requests := requests s @ [getUrl params s]\<rparr>"

definition load_error :: "load_params \<Rightarrow> string \<Rightarrow> string \<Rightarrow> grid \<Rightarrow> grid" where
  "load_error params textStatus errorThrown s =
     (let s1 = log_entry [''An error occured while fetching data from: '' @ getUrl params s] s;
          s2 = log_entry [''textstatus: '' @ textStatus] s1
      in log_entry [''errorthrown'', errorThrown] s2)"

subsection \<open>Sorting\<close>

definition ascClass :: string where
  "ascClass = ''icon-arrow-up''"

definition descClass :: string where
  "descClass = ''icon-arrow-down''"

text \<open>\<^verbatim>\<open>' m-left-5 small-font'\<close>, as the class names \<^verbatim>\<open>addClass\<close> splits it into.\<close>

definition additionalClasses :: "string list" where
  "additionalClasses = [''m-left-5'', ''small-font'']"

text \<open>\<^verbatim>\<open>addLoader\<close> empties the grid's element, header included.\<close>

definition addLoader :: "grid \<Rightarrow> grid" where
  "addLoader s = s\<lparr>headerSpanClasses := (\<lambda>a. []), is_loading := True\<rparr>"

text \<open>
  \<^verbatim>\<open>changeSorting\<close>. The event carries the clicked header's \<^verbatim>\<open>data-attribute\<close>;
  \<open>headerSpanClasses s a\<close> are the classes of the span inside that header. The URI
  template engine is a parameter. Reading \<^verbatim>\<open>this.data.links.sortable[attribute]\<close> throws
  when data, links or the sortable table is missing.
\<close>

definition changeSorting ::
  "(string \<Rightarrow> string \<Rightarrow> string) \<Rightarrow> string option \<Rightarrow> grid \<Rightarrow> js_error + grid" where
  "changeSorting expand attribute s =
     (case attribute of
        None \<Rightarrow> Inr s
      | Some a \<Rightarrow>
          if a = [] then Inr s
          else
            (case data s of
               None \<Rightarrow> Inl TypeError
             | Some d \<Rightarrow>
                 (case links d of
                    None \<Rightarrow> Inl TypeError
                  | Some l \<Rightarrow>
                      (case sortable l of
                         None \<Rightarrow> Inl TypeError
                       | Some tbl \<Rightarrow>
                           (case tbl a of
                              None \<Rightarrow> Inr s
                            | Some template \<Rightarrow>
                                if template = [] then Inr s
                                else
                                  (let s1 = emit DATA_SORT [] s;
                                       s2 = s1\<lparr>sort_attribute := Some a\<rparr>;
                                       direction =
                                         (if ascClass \<in> set (headerSpanClasses s2 a)
                                          then ''desc'' else ''asc'');
                                       s3 = s2\<lparr>sort_direction := Some direction\<rparr>;
                                       s4 = addLoader s3;
                                       url = expand template direction
                                   in Inr (load \<lparr>params_url = url, params_page = None,
                                                 params_success = Some ''updated sort''\<rparr> s4)))))))"

text \<open>\<^verbatim>\<open>setHeaderClasses\<close>, on the span of the header of the current sort attribute.\<close>

definition setHeaderClasses :: "grid \<Rightarrow> grid" where
  "setHeaderClasses s =
     (case sort_attribute s of
        None \<Rightarrow> s
      | Some a \<Rightarrow>
          if a = [] then s
          else if sort_direction s = Some ''asc'' then
            s\<lparr>headerSpanClasses :=
                 (headerSpanClasses s)(a := headerSpanClasses s a @ ascClass # additionalClasses)\<rparr>
          else
            s\<lparr>headerSpanClasses :=
                 (headerSpanClasses s)(a := headerSpanClasses s a @ descClass # additionalClasses)\<rparr>)"

subsection \<open>Pagination\<close>

text \<open>
  \<^verbatim>\<open>templates.paginationPageNavigation\<close>. Each list item is kept as its two varying
  parts (selected or not, page number); \<open>page_li_html\<close> is the string the source pushes.
\<close>

record page_nav =
  nav_page :: int
  nav_pagesDisplay :: int

datatype page_li = PageLi (li_selected: bool) (li_page: int)

definition page_li_html :: "page_li \<Rightarrow> string" where
  \<open>page_li_html li =
     (if li_selected li
      then ''<li class="page is-selected bold" data-page="'' @ number_toString (li_page li)
             @ ''">'' @ number_toString (li_page li) @ ''</li>''
      else ''<li class="page" data-page="'' @ number_toString (li_page li)
             @ ''">'' @ number_toString (li_page li) @ ''</li>'')\<close>

function currentAfter_loop :: "page_nav \<Rightarrow> int \<Rightarrow> page_li list \<Rightarrow> page_li list" where
  "currentAfter_loop d i acc =
     (if i \<le> nav_pagesDisplay d
      then currentAfter_loop d (i + 1) (acc @ [PageLi (nav_page d = i) i])
      else acc)"
  by pat_completeness auto
termination
  by (relation "measure (\<lambda>(d, i, acc). nat (nav_pagesDisplay d + 1 - i))") auto

function before_loop :: "page_nav \<Rightarrow> int \<Rightarrow> page_li list \<Rightarrow> page_li list" where
  "before_loop d i acc =
     (if i < nav_page d then before_loop d (i + 1) (acc @ [PageLi False i]) else acc)"
  by pat_completeness auto
termination
  by (relation "measure (\<lambda>(d, i, acc). nat (nav_page d - i))") auto

declare currentAfter_loop.simps [simp del] before_loop.simps [simp del]

definition pageItems :: "page_nav \<Rightarrow> page_li list" where
  "pageItems d =
     (let pageItemsCurrentAfter = currentAfter_loop d (nav_page d) [];
          rest = nav_pagesDisplay d - int (length pageItemsCurrentAfter);
          pageItemsBefore = (if rest > 0 then before_loop d (nav_page d - rest) [] else [])
      in pageItemsBefore @ pageItemsCurrentAfter)"

definition paginationPageNavigation :: "page_nav \<Rightarrow> string" where
  "paginationPageNavigation d = ''<ul>'' @ concat (map page_li_html (pageItems d)) @ ''</ul>''"


subsection \<open>Initial state and the selection invariant\<close>

text \<open>
  The fields \<^verbatim>\<open>initialize\<close> assigns before it fetches data: \<^verbatim>\<open>data = null\<close>, two
  distinct empty arrays, no sort attribute. The source defaults of the options are
  \<open>default_options\<close>; \<open>grid_with\<close> is the initial state with given array contents.
\<close>

definition initial_grid :: "grid_options \<Rightarrow> grid" where
  "initial_grid opts =
     \<lparr>options = opts, data = None, heap = (\<lambda>r. []), nextRef = 2, allItemIds = 0,
      selectedItemIds = 1, sort_attribute = None, sort_direction = None,
      headerSpanClasses = (\<lambda>a. []), is_loading = False, emitted = [], logged = [],
      requests = []\<rparr>"

definition default_options :: grid_options where
  "default_options = \<lparr>pagination = False, pageSize = None, template_row = None\<rparr>"

definition grid_with :: "grid_options \<Rightarrow> item_id list \<Rightarrow> item_id list \<Rightarrow> grid" where
  "grid_with opts all sel = (initial_grid opts)\<lparr>heap := (\<lambda>r. [])(0 := all, 1 := sel)\<rparr>"

text \<open>The two fields refer to allocated, distinct arrays.\<close>

definition wf_refs :: "grid \<Rightarrow> bool" where
  "wf_refs g =
     (allItemIds g < nextRef g \<and> selectedItemIds g < nextRef g
      \<and> allItemIds g \<noteq> selectedItemIds g)"

text \<open>Selected ids are a subset of loaded ids.\<close>

definition subset_inv :: "grid \<Rightarrow> bool" where
  "subset_inv g = (set (heap g (selectedItemIds g)) \<subseteq> set (heap g (allItemIds g)))"

subsection \<open>Example configurations\<close>

text \<open>A grid with pagination switched on, and a loaded grid whose \<^verbatim>\<open>name\<close> column is
  sortable; the argument gives the classes of the span in that column's header.\<close>

definition paged_options :: grid_options where
  "paged_options = \<lparr>pagination = True, pageSize = Some 20, template_row = None\<rparr>"

definition contacts_data :: grid_data where
  "contacts_data =
     \<lparr>links = Some \<lparr>sortable = Some [''name'' \<mapsto> ''/contacts?sortBy=name&sortOrder='']\<rparr>,
      items = []\<rparr>"

definition contacts_grid :: "string list \<Rightarrow> grid" where
  "contacts_grid classes =
     (initial_grid default_options)
       \<lparr>data := Some contacts_data, headerSpanClasses := (\<lambda>a. [])(''name'' := classes)\<rparr>"

text \<open>A grid whose rows are rendered through a row template, and a loaded grid with a
  given table of sort links.\<close>

definition template_options :: grid_options where
  \<open>template_options = default_options\<lparr>template_row := Some ''<tr data-id="<%= id %>">''\<rparr>\<close>

definition sortable_grid :: "(string \<rightharpoonup> string) \<Rightarrow> grid" where
  "sortable_grid tbl =
     (initial_grid default_options)
       \<lparr>data := Some \<lparr>links = Some \<lparr>sortable = Some tbl\<rparr>, items = []\<rparr>\<rparr>"

section \<open>The smart-content configurator (husky/components/smart-content)\<close>

subsection \<open>Values joined into the request URI\<close>

text \<open>
  The overlay data holds strings, booleans, numbers, \<^verbatim>\<open>null\<close> and arrays.
  \<^verbatim>\<open>Array.prototype.join\<close> writes \<^verbatim>\<open>null\<close> and \<^verbatim>\<open>undefined\<close> as the empty string
  and every other element by \<^verbatim>\<open>String(v)\<close>, which on an array is \<^verbatim>\<open>join(',')\<close>.
\<close>

datatype jsval =
  JNull | JUndefined | JBool bool | JNum int | JStr string | JArr "jsval list"

fun js_toString :: "jsval \<Rightarrow> string"
  and js_join :: "string \<Rightarrow> jsval list \<Rightarrow> string"
  and js_join_elem :: "jsval \<Rightarrow> string" where
  "js_toString JNull = ''null''"
| "js_toString JUndefined = ''undefined''"
| "js_toString (JBool b) = (if b then ''true'' else ''false'')"
| "js_toString (JNum n) = number_toString n"
| "js_toString (JStr str) = str"
| "js_toString (JArr vs) = js_join '','' vs"
| "js_join sep [] = []"
| "js_join sep [v] = js_join_elem v"
| "js_join sep (v # w # vs) = js_join_elem v @ sep @ js_join sep (w # vs)"
| "js_join_elem JNull = []"
| "js_join_elem JUndefined = []"
| "js_join_elem (JBool b) = js_toString (JBool b)"
| "js_join_elem (JNum n) = js_toString (JNum n)"
| "js_join_elem (JStr str) = js_toString (JStr str)"
| "js_join_elem (JArr vs) = js_toString (JArr vs)"

subsection \<open>State\<close>

text \<open>\<^verbatim>\<open>visibleItems\<close> and \<^verbatim>\<open>itemsVisible\<close> are counts of items.\<close>

record sc_options =
  visibleItems :: nat
  instanceName :: string
  sc_url :: string
  dataSource :: jsval
  includeSubFolders :: jsval
  preSelectedCategory :: jsval
  tags :: jsval
  preSelectedSortBy :: jsval
  preSelectedSortMethod :: jsval
  preSelectedPresentAs :: jsval
  limitResult :: jsval
  dataSourceParameter :: string
  includeSubFoldersParameter :: string
  categoryParameter :: string
  tagsParameter :: string
  sortByParameter :: string
  sortMethodParameter :: string
  presentAsParameter :: string
  limitResultParameter :: string

record overlay_data =
  od_dataSource :: jsval
  od_includeSubFolders :: jsval
  od_category :: jsval
  od_tags :: jsval
  od_sortBy :: jsval
  od_sortMethod :: jsval
  od_presentAs :: jsval
  od_limitResult :: jsval

record sc_item =
  si_id :: jsval
  si_name :: jsval

text \<open>The arguments of one application of the \<^verbatim>\<open>contentItem\<close> template.\<close>

record content_li =
  dataId :: jsval
  li_value :: jsval
  num :: nat

datatype content_dom = NoContent string | ItemsList "content_li list" | Loader

record footer_dom =
  footer_visible :: nat
  footer_total :: nat
  footer_toggler :: "string option"
  footer_attached :: bool

record smart =
  sc_opts :: sc_options
  overlayData :: overlay_data
  itemsVisible :: nat
  sc_items :: "sc_item list"
  URI_str :: string
  URI_hasChanged :: bool
  content :: "content_dom option"
  footer :: "footer_dom option"
  sc_emitted :: "string list"
  sc_logged :: "string list"
  sc_requests :: "string list"

subsection \<open>Event names and translation keys\<close>

definition eventNamespace :: string where
  "eventNamespace = ''husky.smart-content.''"

definition createEventName :: "smart \<Rightarrow> string \<Rightarrow> string" where
  "createEventName s postFix =
     eventNamespace
       @ (if instanceName (sc_opts s) \<noteq> [] then instanceName (sc_opts s) @ ''.'' else [])
       @ postFix"

definition DATA_REQUEST :: "smart \<Rightarrow> string" where
  "DATA_REQUEST s = createEventName s ''data-request''"

definition DATA_RETRIEVED :: "smart \<Rightarrow> string" where
  "DATA_RETRIEVED s = createEventName s ''data-retrieved''"

definition DATA_CHANGED :: "smart \<Rightarrow> string" where
  "DATA_CHANGED s = createEventName s ''data-changed''"

definition sc_emit :: "string \<Rightarrow> smart \<Rightarrow> smart" where
  "sc_emit name s = s\<lparr>sc_emitted := sc_emitted s @ [name]\<rparr>"

definition noContentSelected :: string where
  "noContentSelected = ''smart-content.nocontent-selected''"

definition viewAll :: string where
  "viewAll = ''smart-content.view-all''"

definition viewLess :: string where
  "viewLess = ''smart-content.view-less''"

subsection \<open>Initial state\<close>

text \<open>The \<^verbatim>\<open>defaults\<close> object of the source.\<close>

definition defaults :: sc_options where
  "defaults =
     \<lparr>visibleItems = 5, instanceName = ''undefined'', sc_url = [],
      dataSource = JStr [], includeSubFolders = JBool False, preSelectedCategory = JNull,
      tags = JArr [], preSelectedSortBy = JNull, preSelectedSortMethod = JStr ''asc'',
      preSelectedPresentAs = JNull, limitResult = JNull,
      dataSourceParameter = ''dataSource'',
      includeSubFoldersParameter = ''includeSubFolders'',
      categoryParameter = ''category'', tagsParameter = ''tags'',
      sortByParameter = ''sortBy'', sortMethodParameter = ''sortMethod'',
      presentAsParameter = ''presentAs'', limitResultParameter = ''limitResult''\<rparr>"

definition initOverlayData :: "sc_options \<Rightarrow> overlay_data" where
  "initOverlayData opts =
     \<lparr>od_dataSource = dataSource opts,
      od_includeSubFolders = includeSubFolders opts,
      od_category = preSelectedCategory opts,
      od_tags = tags opts,
      od_sortBy = preSelectedSortBy opts,
      od_sortMethod = preSelectedSortMethod opts,
      od_presentAs = preSelectedPresentAs opts,
      od_limitResult = limitResult opts\<rparr>"

definition setVariables :: "sc_options \<Rightarrow> smart" where
  "setVariables opts =
     \<lparr>sc_opts = opts, overlayData = initOverlayData opts, itemsVisible = visibleItems opts,
      sc_items = [], URI_str = [], URI_hasChanged = False, content = None, footer = None,
      sc_emitted = [], sc_logged = [], sc_requests = []\<rparr>"

subsection \<open>Rendering the content and the footer\<close>

definition detachFooter :: "smart \<Rightarrow> smart" where
  "detachFooter s =
     (case footer s of
        None \<Rightarrow> s
      | Some f \<Rightarrow> s\<lparr>footer := Some (f\<lparr>footer_attached := False\<rparr>)\<rparr>)"

text \<open>\<^verbatim>\<open>appendViewToggler\<close>: the toggler appended to the footer, if any.\<close>

definition appendViewToggler :: "smart \<Rightarrow> string option" where
  "appendViewToggler s =
     (if itemsVisible s < length (sc_items s) then Some viewAll
      else if length (sc_items s) > visibleItems (sc_opts s) then Some viewLess
      else None)"

definition renderFooter :: "smart \<Rightarrow> smart" where
  "renderFooter s =
     (let s1 = s\<lparr>itemsVisible :=
                   (if length (sc_items s) < itemsVisible s then length (sc_items s)
                    else itemsVisible s)\<rparr>
      in s1\<lparr>footer := Some \<lparr>footer_visible = itemsVisible s1,
                              footer_total = length (sc_items s1),
                              footer_toggler = appendViewToggler s1,
                              footer_attached = True\<rparr>\<rparr>)"

text \<open>
  The loop of \<^verbatim>\<open>renderContent\<close>, \<^verbatim>\<open>for (; ++i < length && i < this.itemsVisible;)\<close>
  with \<^verbatim>\<open>i\<close> starting at \<open>-1\<close>: \<open>i\<close> below is the value after the increment, so the
  loop is entered with \<open>0\<close>.
\<close>

function renderContent_loop :: "smart \<Rightarrow> nat \<Rightarrow> content_li list \<Rightarrow> content_li list" where
  "renderContent_loop s i ul =
     (if i < length (sc_items s) \<and> i < itemsVisible s
      then renderContent_loop s (Suc i)
             (ul @ [\<lparr>dataId = si_id (sc_items s ! i),
                      li_value = si_name (sc_items s ! i),
                      num = i + 1\<rparr>])
      else ul)"
  by pat_completeness auto
termination
  by (relation "measure (\<lambda>(s, i, ul). length (sc_items s) - i)") auto

declare renderContent_loop.simps [simp del]

definition renderContent :: "smart \<Rightarrow> smart" where
  "renderContent s =
     (if length (sc_items s) \<noteq> 0 then
        renderFooter (s\<lparr>content := Some (ItemsList (renderContent_loop s 0 []))\<rparr>)
      else detachFooter (s\<lparr>content := Some (NoContent noContentSelected)\<rparr>))"

definition toggleView :: "smart \<Rightarrow> smart" where
  "toggleView s =
     renderContent
       (if itemsVisible s < length (sc_items s)
        then s\<lparr>itemsVisible := length (sc_items s)\<rparr>
        else s\<lparr>itemsVisible := visibleItems (sc_opts s)\<rparr>)"

subsection \<open>Requesting the items\<close>

definition startLoader :: "smart \<Rightarrow> smart" where
  "startLoader s = (detachFooter s)\<lparr>content := Some Loader\<rparr>"

definition newURI :: "smart \<Rightarrow> string" where
  "newURI s =
     (let delimiter = (if \<not> contains_char (sc_url (sc_opts s)) CHR ''?'' then ''?'' else ''&'')
      in js_join []
           [JStr (sc_url (sc_opts s)),
            JStr delimiter, JStr (dataSourceParameter (sc_opts s)), JStr ''='',
              od_dataSource (overlayData s),
            JStr ''&'', JStr (includeSubFoldersParameter (sc_opts s)), JStr ''='',
              od_includeSubFolders (overlayData s),
            JStr ''&'', JStr (categoryParameter (sc_opts s)), JStr ''='',
              od_category (overlayData s),
            JStr ''&'', JStr (tagsParameter (sc_opts s)), JStr ''='',
              od_tags (overlayData s),
            JStr ''&'', JStr (sortByParameter (sc_opts s)), JStr ''='',
              od_sortBy (overlayData s),
            JStr ''&'', JStr (sortMethodParameter (sc_opts s)), JStr ''='',
              od_sortMethod (overlayData s),
            JStr ''&'', JStr (presentAsParameter (sc_opts s)), JStr ''='',
              od_presentAs (overlayData s),
            JStr ''&'', JStr (limitResultParameter (sc_opts s)), JStr ''='',
              od_limitResult (overlayData s)])"

definition setURI :: "smart \<Rightarrow> smart" where
  "setURI s =
     (if newURI s \<noteq> URI_str s then
        (let s1 = (if URI_str s \<noteq> [] then sc_emit (DATA_CHANGED s) s else s)
         in s1\<lparr>URI_str := newURI s, URI_hasChanged := True\<rparr>)
      else s\<lparr>URI_hasChanged := False\<rparr>)"

text \<open>
  \<^verbatim>\<open>loadContent\<close> and the two callbacks the transport may call later. The success
  callback stores the items and emits \<^verbatim>\<open>data-retrieved\<close>, whose subscriber (bound in
  \<^verbatim>\<open>bindEvents\<close>) renders the content.
\<close>

definition loadContent :: "smart \<Rightarrow> smart" where
  "loadContent s =
     (if URI_hasChanged s then
        (let s1 = sc_emit (DATA_REQUEST s) s;
             s2 = startLoader s1
         in s2\<lparr>sc_requests := sc_requests s2 @ [URI_str s2]\<rparr>)
      else s)"

definition loadContent_success :: "sc_item list \<Rightarrow> smart \<Rightarrow> smart" where
  "loadContent_success result s =
     (let s1 = s\<lparr>sc_items := result\<rparr>
      in renderContent (sc_emit (DATA_RETRIEVED s1) s1))"

definition loadContent_error :: "string \<Rightarrow> smart \<Rightarrow> smart" where
  "loadContent_error error s = s\<lparr>sc_logged := sc_logged s @ [error]\<rparr>"


subsection \<open>Example items\<close>

definition three_items :: "sc_item list" where
  "three_items =
     [\<lparr>si_id = JNum 7, si_name = JStr ''a''\<rparr>,
      \<lparr>si_id = JNum 8, si_name = JStr ''b''\<rparr>,
      \<lparr>si_id = JNum 9, si_name = JStr ''c''\<rparr>]"

section \<open>Properties of the data grid\<close>

lemmas grid_defs = initial_grid_def grid_with_def default_options_def emit_def new_array_def
  array_push_def array_splice1_def array_pop_def

lemmas event_names = namespace_def ITEM_DESELECT_def ITEM_SELECT_def ALL_DESELECT_def
  ALL_SELECT_def ROW_REMOVED_def DATA_SORT_def

subsection \<open>Arrays\<close>

lemma indexOf_neg_iff: "indexOf xs x < 0 \<longleftrightarrow> x \<notin> set xs"
  by (induction xs) (auto simp: Let_def)

lemma indexOf_nonneg_iff: "0 \<le> indexOf xs x \<longleftrightarrow> x \<in> set xs"
  using indexOf_neg_iff[of xs x] by auto

lemma indexOf_remove1:
  "x \<in> set xs \<Longrightarrow>
     take (nat (indexOf xs x)) xs @ drop (Suc (nat (indexOf xs x))) xs = remove1 x xs"
proof (induction xs)
  case Nil
  then show ?case by simp
next
  case (Cons y ys)
  show ?case
  proof (cases "y = x")
    case True
    then show ?thesis by simp
  next
    case False
    with Cons.prems have mem: "x \<in> set ys" by simp
    then have nn: "\<not> indexOf ys x < 0" by (simp add: indexOf_neg_iff)
    then have "nat (indexOf ys x + 1) = Suc (nat (indexOf ys x))" by simp
    with False nn Cons.IH[OF mem] show ?thesis by (simp add: Let_def)
  qed
qed

lemma indexOf_ge: "- 1 \<le> indexOf xs x"
  by (induction xs) (auto simp: Let_def)

lemma contains_char_iff: "contains_char str c \<longleftrightarrow> c \<in> set str"
  using indexOf_neg_iff[of str c] indexOf_ge[of str c]
  by (auto simp: contains_char_def)

subsection \<open>The id arrays never share an object\<close>

lemma wf_refs_initial_grid: "wf_refs (initial_grid opts)"
  by (simp add: wf_refs_def initial_grid_def)

lemma wf_refs_resetItemSelection: "wf_refs (resetItemSelection g)"
  by (simp add: wf_refs_def resetItemSelection_def new_array_def Let_def)

lemma wf_refs_selectItem: "wf_refs g \<Longrightarrow> wf_refs (selectItem event g)"
  by (auto simp: wf_refs_def selectItem_def array_splice1_def array_push_def array_pop_def
      emit_def Let_def split: option.splits prod.splits)

lemma wf_refs_selectAllItems: "wf_refs g \<Longrightarrow> wf_refs (selectAllItems compare g)"
  by (auto simp: wf_refs_def selectAllItems_def new_array_def emit_def Let_def)

lemma wf_refs_removeRow: "wf_refs g \<Longrightarrow> wf_refs (removeRow event g)"
  by (auto simp: wf_refs_def removeRow_def array_splice1_def emit_def Let_def
      split: option.splits)

lemma refs_prepareTableRow:
  "allItemIds (prepareTableRow row g) = allItemIds g
   \<and> selectedItemIds (prepareTableRow row g) = selectedItemIds g
   \<and> nextRef (prepareTableRow row g) = nextRef g"
  by (simp add: prepareTableRow_def array_push_def split: option.splits)

lemma refs_fold_prepareTableRow:
  "allItemIds (fold prepareTableRow rs g) = allItemIds g
   \<and> selectedItemIds (fold prepareTableRow rs g) = selectedItemIds g
   \<and> nextRef (fold prepareTableRow rs g) = nextRef g"
  by (induction rs arbitrary: g) (simp_all add: refs_prepareTableRow)

lemma wf_refs_prepareTableRows: "wf_refs g \<Longrightarrow> wf_refs (prepareTableRows rs g)"
  by (auto simp: wf_refs_def prepareTableRows_def new_array_def refs_fold_prepareTableRow
      Let_def)

subsection \<open>Selection stays within the loaded ids\<close>

lemma subset_inv_resetItemSelection: "subset_inv (resetItemSelection g)"
  by (simp add: subset_inv_def resetItemSelection_def new_array_def Let_def)

lemma subset_inv_selectAllItems: "subset_inv (selectAllItems compare g)"
  by (simp add: subset_inv_def selectAllItems_def new_array_def emit_def Let_def)

lemma subset_inv_removeRow: "subset_inv g \<Longrightarrow> subset_inv (removeRow event g)"
  by (auto simp: subset_inv_def removeRow_def array_splice1_def emit_def Let_def
      split: option.splits dest: in_set_takeD in_set_dropD)

lemma subset_inv_selectItem:
  assumes "subset_inv g"
    and "\<And>i. row_id event = Some i \<Longrightarrow> i \<noteq> 0 \<Longrightarrow> i \<in> set (heap g (allItemIds g))"
  shows "subset_inv (selectItem event g)"
  using assms
  by (auto simp: subset_inv_def selectItem_def array_splice1_def array_push_def array_pop_def
      emit_def Let_def split: option.splits if_splits prod.splits
      dest: in_set_takeD in_set_dropD in_set_butlastD)

text \<open>
  Rows rendered without a row template record their ids: every non-zero id of a rendered
  row is in \<^verbatim>\<open>allItemIds\<close> afterwards. So a click on a rendered row keeps the selection
  within the loaded ids, with nothing assumed about the clicked id itself.
\<close>

lemma options_fold_prepareTableRow: "options (fold prepareTableRow rs g) = options g"
  by (induction rs arbitrary: g)
    (simp_all add: prepareTableRow_def array_push_def split: option.splits)

lemma allItemIds_prepareTableRow_mono:
  "x \<in> set (heap g (allItemIds g)) \<Longrightarrow>
     x \<in> set (heap (prepareTableRow row g) (allItemIds g))"
  by (simp add: prepareTableRow_def array_push_def split: option.splits)

lemma allItemIds_fold_mono:
  "x \<in> set (heap g (allItemIds g)) \<Longrightarrow>
     x \<in> set (heap (fold prepareTableRow rs g) (allItemIds g))"
proof (induction rs arbitrary: g)
  case Nil
  then show ?case by simp
next
  case (Cons r rs)
  from Cons.prems
  have "x \<in> set (heap (prepareTableRow r g) (allItemIds (prepareTableRow r g)))"
    by (simp add: allItemIds_prepareTableRow_mono refs_prepareTableRow)
  from Cons.IH[OF this] show ?case
    by (simp add: refs_prepareTableRow)
qed

lemma rendered_id_loaded:
  assumes "template_row (options g) \<in> {None, Some []}"
    and "r \<in> set rs" and "tr_id r = Some i" and "i \<noteq> 0"
  shows "i \<in> set (heap (fold prepareTableRow rs g) (allItemIds g))"
  using assms
proof (induction rs arbitrary: g)
  case Nil
  then show ?case by simp
next
  case (Cons q rs)
  have opts: "template_row (options (prepareTableRow q g)) \<in> {None, Some []}"
    using Cons.prems(1) options_fold_prepareTableRow[of "[q]" g] by simp
  show ?case
  proof (cases "r = q")
    case True
    with Cons.prems
    have "i \<in> set (heap (prepareTableRow q g) (allItemIds (prepareTableRow q g)))"
      by (auto simp: prepareTableRow_def array_push_def)
    from allItemIds_fold_mono[OF this, of rs] show ?thesis
      by (simp add: refs_prepareTableRow)
  next
    case False
    with Cons.prems have "r \<in> set rs" by simp
    from Cons.IH[OF opts this Cons.prems(3,4)] show ?thesis
      by (simp add: refs_prepareTableRow)
  qed
qed

lemma subset_inv_selectItem_rendered:
  assumes "template_row (options g) \<in> {None, Some []}"
    and "subset_inv (prepareTableRows rs g)"
    and "r \<in> set rs" and "row_id event = tr_id r"
  shows "subset_inv (selectItem event (prepareTableRows rs g))"
proof (rule subset_inv_selectItem[OF assms(2)])
  fix i
  assume "row_id event = Some i" and "i \<noteq> 0"
  with assms(4) have id: "tr_id r = Some i" by simp
  let ?g1 = "(snd (new_array [] g))\<lparr>allItemIds := fst (new_array [] g)\<rparr>"
  have "template_row (options ?g1) \<in> {None, Some []}"
    using assms(1) by (simp add: new_array_def)
  from rendered_id_loaded[OF this assms(3) id \<open>i \<noteq> 0\<close>]
  show "i \<in> set (heap (prepareTableRows rs g) (allItemIds (prepareTableRows rs g)))"
    by (simp add: prepareTableRows_def refs_fold_prepareTableRow split_def Let_def)
qed

text \<open>
  C1 (selection-subset invariant). \<^verbatim>\<open>resetItemSelection\<close>, \<^verbatim>\<open>selectAllItems\<close> and
  \<^verbatim>\<open>removeRow\<close> keep every selected id among the loaded ids, and so does \<^verbatim>\<open>selectItem\<close>
  on rows rendered without a row template (the lemmas above). With a row template the
  invariant is lost: the template branch of \<^verbatim>\<open>prepareTableRow\<close> returns before the
  \<^verbatim>\<open>allItemIds.push\<close> that the other branch performs, so \<^verbatim>\<open>allItemIds\<close> stays empty
  and a click on the checkbox of the row with \<^verbatim>\<open>data-id="5"\<close> selects an id that is
  not loaded. Evaluated for one row with id 5, with the row template and, for
  comparison, without it.
\<close>

theorem selection_subset_template_rows:
  "heap (prepareTableRows [\<lparr>tr_id = Some 5\<rparr>] (initial_grid template_options))
     (allItemIds (prepareTableRows [\<lparr>tr_id = Some 5\<rparr>] (initial_grid template_options))) = []
   \<and> subset_inv (prepareTableRows [\<lparr>tr_id = Some 5\<rparr>] (initial_grid template_options))
   \<and> heap (selectItem \<lparr>input_type = Some ''checkbox'', row_id = Some 5\<rparr>
             (prepareTableRows [\<lparr>tr_id = Some 5\<rparr>] (initial_grid template_options))) 1 = [5]
   \<and> \<not> subset_inv
       (selectItem \<lparr>input_type = Some ''checkbox'', row_id = Some 5\<rparr>
          (prepareTableRows [\<lparr>tr_id = Some 5\<rparr>] (initial_grid template_options)))
   \<and> heap (prepareTableRows [\<lparr>tr_id = Some 5\<rparr>] (initial_grid default_options))
       (allItemIds (prepareTableRows [\<lparr>tr_id = Some 5\<rparr>] (initial_grid default_options)))
       = [5]
   \<and> subset_inv
       (selectItem \<lparr>input_type = Some ''checkbox'', row_id = Some 5\<rparr>
          (prepareTableRows [\<lparr>tr_id = Some 5\<rparr>] (initial_grid default_options)))"
  by (simp add: subset_inv_def prepareTableRows_def prepareTableRow_def selectItem_def
      template_options_def grid_defs Let_def)

subsection \<open>Removing a row\<close>

text \<open>What \<^verbatim>\<open>removeRow\<close> does to the selection: the first occurrence of the id is
  removed, everything else in the store stays as it was.\<close>

lemma removeRow_selected:
  "heap (removeRow event g) (selectedItemIds g) =
     (case row_arg_id event of
        None \<Rightarrow> heap g (selectedItemIds g)
      | Some i \<Rightarrow> remove1 i (heap g (selectedItemIds g)))"
  by (auto simp: removeRow_def emit_def array_splice1_def Let_def indexOf_remove1
      indexOf_nonneg_iff remove1_idem split: option.splits)

lemma removeRow_frame:
  "selectedItemIds (removeRow event g) = selectedItemIds g \<and>
   allItemIds (removeRow event g) = allItemIds g \<and>
   (\<forall>r. r \<noteq> selectedItemIds g \<longrightarrow> heap (removeRow event g) r = heap g r) \<and>
   emitted (removeRow event g) = emitted g @ [(ROW_REMOVED, [row_arg_payload event])]"
  by (auto simp: removeRow_def emit_def array_splice1_def Let_def split: option.splits)

lemma removeRow_allItemIds:
  "wf_refs g \<Longrightarrow> heap (removeRow event g) (allItemIds (removeRow event g)) = heap g (allItemIds g)"
  by (simp add: removeRow_frame wf_refs_def)

text \<open>
  C7 (row removal). The selection and \<^verbatim>\<open>allItemIds\<close> behave as described
  (\<open>removeRow_selected\<close>, \<open>removeRow_frame\<close>) and one event is emitted per call, but
  not the documented \<^verbatim>\<open>husky.datagrid.row.removed\<close>: \<^verbatim>\<open>namespace\<close> is
  \<^verbatim>\<open>'husky.datagrid'\<close> without a trailing dot, so the name is
  \<^verbatim>\<open>husky.datagridrow.removed\<close>. Evaluated for \<^verbatim>\<open>removeRow(3)\<close> with ids 3 and 4 loaded
  and selected.
\<close>

theorem removeRow_event_name:
  "emitted (removeRow (RowId 3) (grid_with default_options [3, 4] [3, 4])) =
     [(''husky.datagridrow.removed'', [ArgId 3])]
   \<and> ''husky.datagridrow.removed'' \<noteq> ''husky.datagrid.row.removed''"
  by (simp add: removeRow_def row_arg_id_def row_arg_payload_def grid_defs event_names Let_def)

subsection \<open>Selecting all rows\<close>

text \<open>What \<^verbatim>\<open>selectAllItems\<close> does to the store: \<^verbatim>\<open>allItemIds\<close> is untouched and
  \<^verbatim>\<open>selectedItemIds\<close> becomes a new array, empty or with the contents of
  \<^verbatim>\<open>allItemIds\<close>.\<close>

lemma selectAllItems_state:
  assumes "allItemIds g < nextRef g"
  shows "allItemIds (selectAllItems compare g) = allItemIds g"
    and "heap (selectAllItems compare g) (allItemIds g) = heap g (allItemIds g)"
    and "selectedItemIds (selectAllItems compare g) \<noteq> allItemIds g"
    and "compare (heap g (selectedItemIds g)) (heap g (allItemIds g)) \<Longrightarrow>
           heap (selectAllItems compare g) (selectedItemIds (selectAllItems compare g)) = []
           \<and> emitted (selectAllItems compare g) = emitted g @ [(ALL_DESELECT, [ArgNull])]"
    and "\<not> compare (heap g (selectedItemIds g)) (heap g (allItemIds g)) \<Longrightarrow>
           heap (selectAllItems compare g) (selectedItemIds (selectAllItems compare g))
             = heap g (allItemIds g)
           \<and> emitted (selectAllItems compare g) =
               emitted g
                 @ [(ALL_SELECT, [ArgArray (selectedItemIds (selectAllItems compare g))])]"
  using assms by (auto simp: selectAllItems_def new_array_def emit_def Let_def)

text \<open>
  C5 (select-all toggle). The arrays behave as described (\<open>selectAllItems_state\<close>), but
  the two events are emitted as \<^verbatim>\<open>husky.datagridall.deselect\<close> and
  \<^verbatim>\<open>husky.datagridall.select\<close>, not under the documented names
  \<^verbatim>\<open>husky.datagrid.all.deselect\<close> and \<^verbatim>\<open>husky.datagrid.all.select\<close>: the same missing
  dot of \<^verbatim>\<open>namespace\<close>. Evaluated with ids 1 and 2 loaded, once with both selected and
  once with only 1 selected.
\<close>

theorem selectAllItems_event_names:
  "map fst (emitted (selectAllItems (=) (grid_with default_options [1, 2] [1, 2]))) =
     [''husky.datagridall.deselect'']
   \<and> map fst (emitted (selectAllItems (=) (grid_with default_options [1, 2] [1]))) =
     [''husky.datagridall.select'']
   \<and> ''husky.datagridall.deselect'' \<noteq> ''husky.datagrid.all.deselect''
   \<and> ''husky.datagridall.select'' \<noteq> ''husky.datagrid.all.select''"
  by (simp add: selectAllItems_def grid_defs event_names Let_def)

subsection \<open>Radio selection\<close>

text \<open>
  C10 (single selection under radio mode), as the code has it. When the clicked input
  is a radio button, \<^verbatim>\<open>selectItem\<close> pops the previous selection and then pushes the
  clicked row's id when the row has one that is not \<open>0\<close>. It emits item.deselect for
  the popped id when that id is a positive number (the test is
  \<^verbatim>\<open>!!oldSelectionId && oldSelectionId > -1\<close>), then item.select. So an array of length
  at most one keeps length at most one.
\<close>

theorem selectItem_radio_single:
  assumes "input_type event = Some ''radio''"
  shows "selectedItemIds (selectItem event g) = selectedItemIds g
    \<and> allItemIds (selectItem event g) = allItemIds g
    \<and> heap (selectItem event g) (selectedItemIds g) =
        butlast (heap g (selectedItemIds g))
          @ (case row_id event of None \<Rightarrow> [] | Some i \<Rightarrow> if i \<noteq> 0 then [i] else [])
    \<and> emitted (selectItem event g) =
        emitted g
          @ (if heap g (selectedItemIds g) \<noteq> [] \<and> 0 < last (heap g (selectedItemIds g))
             then [(ITEM_DESELECT, [ArgId (last (heap g (selectedItemIds g)))])] else [])
          @ [(ITEM_SELECT,
              [case row_id event of
                 None \<Rightarrow> ArgEvent event
               | Some i \<Rightarrow> if i \<noteq> 0 then ArgId i else ArgEvent event])]
    \<and> (length (heap g (selectedItemIds g)) \<le> 1
        \<longrightarrow> length (heap (selectItem event g) (selectedItemIds (selectItem event g))) \<le> 1)"
  using assms
  by (auto simp: selectItem_def array_push_def array_pop_def emit_def Let_def
      split: option.splits prod.splits)

text \<open>An instance: row 1 selected, the radio button of row 2 clicked.\<close>

theorem selectItem_radio_single_witness:
  "input_type \<lparr>input_type = Some ''radio'', row_id = Some 2\<rparr> = Some ''radio''
   \<and> length (heap (grid_with default_options [1, 2, 3] [1]) 1) \<le> 1
   \<and> heap (selectItem \<lparr>input_type = Some ''radio'', row_id = Some 2\<rparr>
             (grid_with default_options [1, 2, 3] [1])) 1 = [2]
   \<and> emitted (selectItem \<lparr>input_type = Some ''radio'', row_id = Some 2\<rparr>
                (grid_with default_options [1, 2, 3] [1]))
       = [(ITEM_DESELECT, [ArgId 1]), (ITEM_SELECT, [ArgId 2])]
   \<and> length (heap (selectItem \<lparr>input_type = Some ''radio'', row_id = Some 2\<rparr>
                     (grid_with default_options [1, 2, 3] [1])) 1) \<le> 1"
proof -
  let ?e = "\<lparr>input_type = Some ''radio'', row_id = Some 2\<rparr>"
  let ?g = "grid_with default_options [1, 2, 3] [1]"
  have radio: "input_type ?e = Some ''radio''"
    by simp
  have g: "selectedItemIds ?g = 1" "heap ?g 1 = [1]" "emitted ?g = []"
    by (simp_all add: grid_defs)
  from selectItem_radio_single[OF radio, of ?g] g radio
  show ?thesis by simp
qed

text \<open>
  A previous selection that is not positive is popped without item.deselect: with the
  row of id \<open>-5\<close> selected, a click on the radio button of row 2 emits item.select
  only. And a clicked row with id \<open>0\<close> is not pushed: the previous selection is popped
  and the array is left empty.
\<close>

theorem selectItem_radio_counterexample:
  "heap (grid_with default_options [- 5, 2] [- 5]) 1 = [- 5]
   \<and> emitted (selectItem \<lparr>input_type = Some ''radio'', row_id = Some 2\<rparr>
                (grid_with default_options [- 5, 2] [- 5]))
       = [(ITEM_SELECT, [ArgId 2])]
   \<and> heap (selectItem \<lparr>input_type = Some ''radio'', row_id = Some 2\<rparr>
             (grid_with default_options [- 5, 2] [- 5])) 1 = [2]
   \<and> heap (selectItem \<lparr>input_type = Some ''radio'', row_id = Some 0\<rparr>
             (grid_with default_options [1, 2] [1])) 1 = []
   \<and> emitted (selectItem \<lparr>input_type = Some ''radio'', row_id = Some 0\<rparr>
                (grid_with default_options [1, 2] [1]))
       = [(ITEM_DESELECT, [ArgId 1]),
          (ITEM_SELECT, [ArgEvent \<lparr>input_type = Some ''radio'', row_id = Some 0\<rparr>])]"
  by (simp add: selectItem_def grid_defs Let_def)


subsection \<open>Sorting\<close>

text \<open>
  C4 (sort-state toggling), as the code has it. With the sortable table loaded, a click
  on a header whose attribute is non-empty and has a non-empty link in the table (what
  \<^verbatim>\<open>!!attribute && !!this.data.links.sortable[attribute]\<close> tests) sets the sort attribute
  to that attribute and the direction to \<^verbatim>\<open>desc\<close> if the header's span carries
  \<^verbatim>\<open>ascClass\<close> and to \<^verbatim>\<open>asc\<close> otherwise, emits the sort event and issues one request.
  A click on any other header leaves the whole state, and so both fields, as it was.
\<close>

theorem changeSorting_sets_sort:
  assumes "data g = Some d" and "links d = Some l" and "sortable l = Some tbl"
  shows "(a \<noteq> [] \<and> tbl a = Some template \<and> template \<noteq> [] \<longrightarrow>
            (\<exists>g'. changeSorting expand (Some a) g = Inr g'
               \<and> sort_attribute g' = Some a
               \<and> sort_direction g' =
                   Some (if ascClass \<in> set (headerSpanClasses g a) then ''desc'' else ''asc'')
               \<and> emitted g' = emitted g @ [(DATA_SORT, [])]
               \<and> length (requests g') = Suc (length (requests g))))
       \<and> (a = [] \<or> tbl a = None \<or> tbl a = Some [] \<longrightarrow>
            changeSorting expand (Some a) g = Inr g)
       \<and> changeSorting expand None g = Inr g"
  using assms
  by (auto simp: changeSorting_def Let_def load_def addLoader_def emit_def)

text \<open>An instance: the \<^verbatim>\<open>name\<close> header clicked while its span shows the ascending
  arrow, then while it shows nothing, and a click on a header that is not sortable.\<close>

theorem changeSorting_sets_sort_witness:
  "data (contacts_grid [ascClass]) = Some contacts_data
   \<and> links contacts_data
       = Some \<lparr>sortable = Some [''name'' \<mapsto> ''/contacts?sortBy=name&sortOrder='']\<rparr>
   \<and> [''name'' \<mapsto> ''/contacts?sortBy=name&sortOrder=''] ''name''
        = Some ''/contacts?sortBy=name&sortOrder=''
   \<and> ascClass \<in> set (headerSpanClasses (contacts_grid [ascClass]) ''name'')
   \<and> (\<exists>g'. changeSorting (@) (Some ''name'') (contacts_grid [ascClass]) = Inr g'
          \<and> sort_attribute g' = Some ''name'' \<and> sort_direction g' = Some ''desc'')
   \<and> (\<exists>g'. changeSorting (@) (Some ''name'') (contacts_grid []) = Inr g'
          \<and> sort_attribute g' = Some ''name'' \<and> sort_direction g' = Some ''asc'')
   \<and> changeSorting (@) (Some ''city'') (contacts_grid [ascClass])
       = Inr (contacts_grid [ascClass])"
proof -
  let ?tbl = "[''name'' \<mapsto> ''/contacts?sortBy=name&sortOrder='']"
  let ?l = "\<lparr>sortable = Some ?tbl\<rparr>"
  have d: "data (contacts_grid cs) = Some contacts_data" for cs
    by (simp add: contacts_grid_def)
  have l: "links contacts_data = Some ?l"
    by (simp add: contacts_data_def)
  have s: "sortable ?l = Some ?tbl"
    by simp
  have hit: "?tbl ''name'' = Some ''/contacts?sortBy=name&sortOrder=''"
    and miss: "?tbl ''city'' = None"
    by simp_all
  have cls: "ascClass \<in> set (headerSpanClasses (contacts_grid [ascClass]) ''name'')"
    "ascClass \<notin> set (headerSpanClasses (contacts_grid []) ''name'')"
    by (simp_all add: contacts_grid_def)
  from changeSorting_sets_sort[OF d l s,
      of "''name''" "''/contacts?sortBy=name&sortOrder=''" "(@)" "[ascClass]"]
    changeSorting_sets_sort[OF d l s,
      of "''name''" "''/contacts?sortBy=name&sortOrder=''" "(@)" "[]"]
    changeSorting_sets_sort[OF d l s, of "''city''" _ "(@)" "[ascClass]"]
    d l hit miss cls
  show ?thesis by auto
qed

text \<open>
  That an attribute appears in \<^verbatim>\<open>data.links.sortable\<close> is not enough. With the table
  \<^verbatim>\<open>{name: ''}\<close> a click on the \<^verbatim>\<open>name\<close> header changes nothing, and neither does a
  click on the header of the empty attribute in the table \<^verbatim>\<open>{'': '/contacts?sortOrder='}\<close>.
\<close>

theorem changeSorting_counterexample:
  "[''name'' \<mapsto> []] ''name'' = Some []
   \<and> changeSorting (@) (Some ''name'') (sortable_grid [''name'' \<mapsto> []])
       = Inr (sortable_grid [''name'' \<mapsto> []])
   \<and> sort_attribute (sortable_grid [''name'' \<mapsto> []]) = None
   \<and> [[] \<mapsto> ''/contacts?sortOrder=''] [] = Some ''/contacts?sortOrder=''
   \<and> changeSorting (@) (Some []) (sortable_grid [[] \<mapsto> ''/contacts?sortOrder=''])
       = Inr (sortable_grid [[] \<mapsto> ''/contacts?sortOrder=''])
   \<and> sort_attribute (sortable_grid [[] \<mapsto> ''/contacts?sortOrder='']) = None"
  by (simp add: changeSorting_def sortable_grid_def initial_grid_def)

text \<open>\<^verbatim>\<open>setHeaderClasses\<close> is what puts the ascending arrow on the span: after it ran on
  a header, the span carries \<^verbatim>\<open>ascClass\<close> exactly if the direction is \<^verbatim>\<open>asc\<close> or the
  class was there before.\<close>

lemma setHeaderClasses_asc:
  assumes "sort_attribute g = Some a" and "a \<noteq> []"
  shows "ascClass \<in> set (headerSpanClasses (setHeaderClasses g) a) \<longleftrightarrow>
           sort_direction g = Some ''asc'' \<or> ascClass \<in> set (headerSpanClasses g a)"
  using assms
  by (auto simp: setHeaderClasses_def ascClass_def descClass_def additionalClasses_def)

subsection \<open>The request URL\<close>

text \<open>
  C9 (URL construction for paginated fetches). \<^verbatim>\<open>getUrl\<close> returns \<^verbatim>\<open>params.url\<close>
  unchanged when the data links are loaded, when pagination is off, or when the page size
  is unset (\<^verbatim>\<open>null\<close>, or \<open>0\<close>, which \<^verbatim>\<open>!!\<close> treats alike). Otherwise it appends the page
  size, after \<^verbatim>\<open>&\<close> if the URL contains a question mark and after \<^verbatim>\<open>?\<close> if not, and
  appends the page exactly if \<^verbatim>\<open>params.page > 1\<close>.
\<close>

theorem getUrl_cases:
  "(links_loaded g \<longrightarrow> getUrl params g = params_url params)
   \<and> (\<not> pagination (options g) \<longrightarrow> getUrl params g = params_url params)
   \<and> (pageSize (options g) = None \<or> pageSize (options g) = Some 0
        \<longrightarrow> getUrl params g = params_url params)
   \<and> (\<not> links_loaded g \<and> pagination (options g) \<and> pageSize (options g) = Some sz \<and> sz \<noteq> 0
        \<longrightarrow> getUrl params g =
              params_url params
                @ (if CHR ''?'' \<in> set (params_url params) then ''&'' else ''?'')
                @ ''pageSize='' @ number_toString sz
                @ (case params_page params of
                     None \<Rightarrow> []
                   | Some p \<Rightarrow> if p > 1 then ''&page='' @ number_toString p else []))"
  by (auto simp: getUrl_def contains_char_iff Let_def split: option.splits)

text \<open>An instance: page size 20; page 3 of a URL with a query, page 1 of a URL without
  one, and the same request on a grid without pagination.\<close>

theorem getUrl_cases_witness:
  "\<not> links_loaded (initial_grid paged_options)
   \<and> pagination (options (initial_grid paged_options))
   \<and> pageSize (options (initial_grid paged_options)) = Some 20
   \<and> getUrl \<lparr>params_url = ''/contacts?flat=true'', params_page = Some 3,
              params_success = None\<rparr>
        (initial_grid paged_options) = ''/contacts?flat=true&pageSize=20&page=3''
   \<and> getUrl \<lparr>params_url = ''/contacts'', params_page = Some 1, params_success = None\<rparr>
        (initial_grid paged_options) = ''/contacts?pageSize=20''
   \<and> getUrl \<lparr>params_url = ''/contacts'', params_page = Some 3, params_success = None\<rparr>
        (initial_grid default_options) = ''/contacts''"
proof -
  let ?g = "initial_grid paged_options"
  have pre: "\<not> links_loaded ?g" "pagination (options ?g)" "pageSize (options ?g) = Some 20"
    by (simp_all add: links_loaded_def initial_grid_def paged_options_def)
  have n20: "number_toString 20 = ''20''" and n3: "number_toString 3 = ''3''"
    by (simp_all add: number_toString_def nat_toString.simps digit_char_def)
  have off: "\<not> pagination (options (initial_grid default_options))"
    by (simp add: initial_grid_def default_options_def)
  from pre off n20 n3
    getUrl_cases[where g = ?g and sz = 20
      and params = "\<lparr>params_url = ''/contacts?flat=true'', params_page = Some 3,
                      params_success = None\<rparr>"]
    getUrl_cases[where g = ?g and sz = 20
      and params = "\<lparr>params_url = ''/contacts'', params_page = Some 1,
                      params_success = None\<rparr>"]
    getUrl_cases[where g = "initial_grid default_options"
      and params = "\<lparr>params_url = ''/contacts'', params_page = Some 3,
                      params_success = None\<rparr>"]
  show ?thesis by simp
qed


subsection \<open>The pagination window\<close>

text \<open>The two loops, in closed form.\<close>

lemma currentAfter_loop_eq:
  "currentAfter_loop d i acc =
     acc @ map (\<lambda>k. PageLi (nav_page d = k) k) [i..nav_pagesDisplay d]"
proof (induction d i acc rule: currentAfter_loop.induct)
  case (1 d i acc)
  show ?case
  proof (cases "i \<le> nav_pagesDisplay d")
    case True
    then have "[i..nav_pagesDisplay d] = i # [i + 1..nav_pagesDisplay d]"
      by (simp add: upto_rec1)
    with True "1.IH" show ?thesis
      by (simp add: currentAfter_loop.simps[of d i acc])
  next
    case False
    then show ?thesis
      by (simp add: currentAfter_loop.simps[of d i acc])
  qed
qed

lemma before_loop_eq:
  "before_loop d i acc = acc @ map (PageLi False) [i..nav_page d - 1]"
proof (induction d i acc rule: before_loop.induct)
  case (1 d i acc)
  show ?case
  proof (cases "i < nav_page d")
    case True
    then have "[i..nav_page d - 1] = i # [i + 1..nav_page d - 1]"
      by (simp add: upto_rec1)
    with True "1.IH" show ?thesis
      by (simp add: before_loop.simps[of d i acc])
  next
    case False
    then show ?thesis
      by (simp add: before_loop.simps[of d i acc])
  qed
qed

lemma pageItems_eq:
  "pageItems d =
     (let rest = nav_pagesDisplay d - int (nat (nav_pagesDisplay d - nav_page d + 1))
      in (if rest > 0 then map (PageLi False) [nav_page d - rest..nav_page d - 1] else [])
         @ map (\<lambda>k. PageLi (nav_page d = k) k) [nav_page d..nav_pagesDisplay d])"
  by (simp add: pageItems_def currentAfter_loop_eq before_loop_eq Let_def)

text \<open>While the current page is at most the display count, the window is the pages
  \<open>1\<close> to \<open>pagesDisplay\<close> with the current page selected.\<close>

lemma pageItems_within:
  assumes "1 \<le> nav_page d" and "nav_page d \<le> nav_pagesDisplay d"
  shows "pageItems d = map (\<lambda>k. PageLi (nav_page d = k) k) [1..nav_pagesDisplay d]"
proof -
  have split: "[1..nav_pagesDisplay d] = [1..nav_page d - 1] @ [nav_page d..nav_pagesDisplay d]"
    using assms upto_split1[of 1 "nav_page d" "nav_pagesDisplay d"] by simp
  have before: "map (\<lambda>k. PageLi (nav_page d = k) k) [1..nav_page d - 1]
                = map (PageLi False) [1..nav_page d - 1]"
    by (rule map_cong) auto
  show ?thesis
  proof (cases "nav_page d = 1")
    case True
    with assms show ?thesis by (simp add: pageItems_eq Let_def)
  next
    case False
    with assms have "nav_pagesDisplay d - int (nat (nav_pagesDisplay d - nav_page d + 1))
                      = nav_page d - 1" by simp
    with assms False split before show ?thesis by (simp add: pageItems_eq Let_def)
  qed
qed

text \<open>Beyond the display count the first loop adds nothing, and the window is the
  \<open>pagesDisplay\<close> pages before the current one, none of them selected.\<close>

lemma pageItems_beyond:
  assumes "1 \<le> nav_pagesDisplay d" and "nav_pagesDisplay d < nav_page d"
  shows "pageItems d =
           map (PageLi False) [nav_page d - nav_pagesDisplay d..nav_page d - 1]"
  using assms by (simp add: pageItems_eq Let_def)

text \<open>
  C2 (pagination window). The window always has \<open>pagesDisplay\<close> contiguous entries, but
  the current page is in it, selected, only while it does not exceed the display count
  (\<open>pageItems_within\<close>, \<open>pageItems_beyond\<close>): the first loop runs to
  \<^verbatim>\<open>data.pagesDisplay\<close>, not to the current page plus the display count named in the
  TODO comment above it. Evaluated on page 6 with 5 pages displayed: the entries are the pages 1 to 5,
  none selected, and page 6 is missing.
\<close>

theorem pagination_current_page_missing:
  \<open>map li_page (pageItems \<lparr>nav_page = 6, nav_pagesDisplay = 5\<rparr>) = [1, 2, 3, 4, 5]
   \<and> map li_selected (pageItems \<lparr>nav_page = 6, nav_pagesDisplay = 5\<rparr>)
       = [False, False, False, False, False]
   \<and> paginationPageNavigation \<lparr>nav_page = 6, nav_pagesDisplay = 5\<rparr>
       = ''<ul><li class="page" data-page="1">1</li><li class="page" data-page="2">2</li>''
         @ ''<li class="page" data-page="3">3</li><li class="page" data-page="4">4</li>''
         @ ''<li class="page" data-page="5">5</li></ul>''\<close>
  by (simp add: paginationPageNavigation_def page_li_html_def pageItems_def
      currentAfter_loop.simps before_loop.simps number_toString_def nat_toString.simps
      digit_char_def)


section \<open>Properties of the smart-content configurator\<close>

lemmas smart_defs = setVariables_def initOverlayData_def defaults_def three_items_def

subsection \<open>Visible items\<close>

lemma renderContent_loop_eq:
  "renderContent_loop s i ul =
     ul @ map (\<lambda>k. \<lparr>dataId = si_id (sc_items s ! k), li_value = si_name (sc_items s ! k),
                     num = k + 1\<rparr>)
            [i..<min (length (sc_items s)) (itemsVisible s)]"
proof (induction s i ul rule: renderContent_loop.induct)
  case (1 s i ul)
  show ?case
  proof (cases "i < length (sc_items s) \<and> i < itemsVisible s")
    case True
    then have "[i..<min (length (sc_items s)) (itemsVisible s)]
                 = i # [Suc i..<min (length (sc_items s)) (itemsVisible s)]"
      by (simp add: upt_conv_Cons)
    with True "1.IH" show ?thesis
      by (simp add: renderContent_loop.simps[of s i ul])
  next
    case False
    then show ?thesis
      by (auto simp: renderContent_loop.simps[of s i ul])
  qed
qed

lemma map_nth_take:
  "map (\<lambda>k. f (xs ! k)) [0..<min (length xs) n] = map f (take n xs)"
  by (simp add: list_eq_iff_nth_eq min.commute)

lemma content_renderFooter: "content (renderFooter s) = content s"
  by (simp add: renderFooter_def Let_def)

text \<open>
  C6 (visible-item count). With items present, \<^verbatim>\<open>renderContent\<close> renders a list of
  exactly \<open>min (items.length) itemsVisible\<close> entries: the first items in their order,
  numbered from 1; the footer is attached and reports that count and the number of
  items. With no items it renders the no-content template and detaches the footer, if
  there is one.
\<close>

theorem renderContent_visible_items:
  "(sc_items s \<noteq> [] \<longrightarrow>
      (\<exists>ul. content (renderContent s) = Some (ItemsList ul)
         \<and> length ul = min (length (sc_items s)) (itemsVisible s)
         \<and> map dataId ul = map si_id (take (itemsVisible s) (sc_items s))
         \<and> map li_value ul = map si_name (take (itemsVisible s) (sc_items s))
         \<and> map num ul = [1..<Suc (length ul)]
         \<and> footer (renderContent s)
             = Some \<lparr>footer_visible = length ul, footer_total = length (sc_items s),
                      footer_toggler = appendViewToggler (s\<lparr>itemsVisible := length ul\<rparr>),
                      footer_attached = True\<rparr>))
   \<and> (sc_items s = [] \<longrightarrow>
        content (renderContent s) = Some (NoContent noContentSelected)
        \<and> footer (renderContent s)
            = map_option (\<lambda>f. f\<lparr>footer_attached := False\<rparr>) (footer s))"
proof -
  let ?ul = "renderContent_loop s 0 []"
  have len: "length ?ul = min (length (sc_items s)) (itemsVisible s)"
    by (simp add: renderContent_loop_eq)
  have ids: "map dataId ?ul = map si_id (take (itemsVisible s) (sc_items s))"
    by (simp add: renderContent_loop_eq comp_def map_nth_take)
  have vals: "map li_value ?ul = map si_name (take (itemsVisible s) (sc_items s))"
    by (simp add: renderContent_loop_eq comp_def map_nth_take)
  have nums: "map num ?ul = [1..<Suc (length ?ul)]"
    by (simp add: renderContent_loop_eq comp_def map_Suc_upt del: upt_Suc)
  have nonempty: "sc_items s \<noteq> [] \<Longrightarrow> content (renderContent s) = Some (ItemsList ?ul)"
    by (simp add: renderContent_def content_renderFooter)
  have foot: "sc_items s \<noteq> [] \<Longrightarrow>
      footer (renderContent s)
        = Some \<lparr>footer_visible = length ?ul, footer_total = length (sc_items s),
                 footer_toggler = appendViewToggler (s\<lparr>itemsVisible := length ?ul\<rparr>),
                 footer_attached = True\<rparr>"
    by (auto simp: renderContent_def renderFooter_def appendViewToggler_def len Let_def
        min_def)
  have empty: "sc_items s = [] \<Longrightarrow>
      content (renderContent s) = Some (NoContent noContentSelected)
      \<and> footer (renderContent s) = map_option (\<lambda>f. f\<lparr>footer_attached := False\<rparr>) (footer s)"
    by (simp add: renderContent_def detachFooter_def split: option.splits)
  from len ids vals nums nonempty foot empty show ?thesis by blast
qed

text \<open>An instance: three items with two visible, and the component before any item
  has arrived.\<close>

theorem renderContent_visible_items_witness:
  "sc_items ((setVariables defaults)\<lparr>sc_items := three_items, itemsVisible := 2\<rparr>) \<noteq> []
   \<and> content (renderContent
                ((setVariables defaults)\<lparr>sc_items := three_items, itemsVisible := 2\<rparr>))
       = Some (ItemsList [\<lparr>dataId = JNum 7, li_value = JStr ''a'', num = 1\<rparr>,
                          \<lparr>dataId = JNum 8, li_value = JStr ''b'', num = 2\<rparr>])
   \<and> sc_items (setVariables defaults) = []
   \<and> content (renderContent (setVariables defaults)) = Some (NoContent noContentSelected)
   \<and> footer (renderContent (setVariables defaults)) = None"
proof -
  let ?init = "setVariables defaults"
  let ?st = "?init\<lparr>sc_items := three_items, itemsVisible := 2\<rparr>"
  have a: "sc_items ?st \<noteq> []" and b: "sc_items ?init = []" and f: "footer ?init = None"
    by (simp_all add: smart_defs)
  have c: "content (renderContent ?st)
             = Some (ItemsList [\<lparr>dataId = JNum 7, li_value = JStr ''a'', num = 1\<rparr>,
                                \<lparr>dataId = JNum 8, li_value = JStr ''b'', num = 2\<rparr>])"
    by (simp add: renderContent_def renderFooter_def renderContent_loop.simps smart_defs Let_def)
  from renderContent_visible_items[of ?init] renderContent_visible_items[of ?st] a b c f
  show ?thesis by simp
qed

subsection \<open>Requests only on change\<close>

text \<open>
  C8 (requests only on change). \<^verbatim>\<open>setURI\<close> stores the newly built URI and sets
  \<^verbatim>\<open>URI.hasChanged\<close> to true exactly if it differs from the stored one; it emits
  data-changed exactly if it differs and the stored one was not empty. \<^verbatim>\<open>loadContent\<close>
  issues a request (for the stored URI) exactly if \<^verbatim>\<open>URI.hasChanged\<close> is true, and
  otherwise does nothing at all.
\<close>

theorem setURI_loadContent_on_change:
  "URI_hasChanged (setURI s) = (newURI s \<noteq> URI_str s)
   \<and> URI_str (setURI s) = newURI s
   \<and> sc_emitted (setURI s) =
       (if newURI s \<noteq> URI_str s \<and> URI_str s \<noteq> [] then sc_emitted s @ [DATA_CHANGED s]
        else sc_emitted s)
   \<and> sc_requests (loadContent s) =
       (if URI_hasChanged s then sc_requests s @ [URI_str s] else sc_requests s)
   \<and> (\<not> URI_hasChanged s \<longrightarrow> loadContent s = s)"
  by (simp add: setURI_def loadContent_def startLoader_def detachFooter_def sc_emit_def Let_def
      split: option.splits)

lemma newURI_defaults:
  "newURI (setVariables defaults) =
     ''?dataSource=&includeSubFolders=false&category=&tags=&sortBy=&sortMethod=asc&presentAs=&limitResult=''"
  by (simp add: newURI_def smart_defs contains_char_def)

text \<open>An instance: the component at start-up (\<^verbatim>\<open>setURI\<close>, \<^verbatim>\<open>loadContent\<close>), and a second
  \<^verbatim>\<open>setURI\<close> with the overlay data unchanged.\<close>

theorem setURI_loadContent_on_change_witness:
  "URI_hasChanged (setURI (setVariables defaults))
   \<and> sc_emitted (setURI (setVariables defaults)) = []
   \<and> sc_requests (loadContent (setURI (setVariables defaults)))
       = [''?dataSource=&includeSubFolders=false&category=&tags=&sortBy=&sortMethod=asc&presentAs=&limitResult='']
   \<and> \<not> URI_hasChanged (setURI (setURI (setVariables defaults)))
   \<and> loadContent (setURI (setURI (setVariables defaults)))
       = setURI (setURI (setVariables defaults))"
proof -
  let ?init = "setVariables defaults"
  let ?once = "setURI ?init"
  let ?twice = "setURI ?once"
  have init: "URI_str ?init = []" "sc_emitted ?init = []" "sc_requests ?init = []"
    by (simp_all add: setVariables_def)
  have same: "newURI ?once = newURI ?init"
    by (simp add: newURI_def setURI_def sc_emit_def Let_def)
  have req: "sc_requests ?once = []"
    by (simp add: setURI_def sc_emit_def Let_def init)
  from setURI_loadContent_on_change[of ?init] setURI_loadContent_on_change[of ?once]
    setURI_loadContent_on_change[of ?twice] newURI_defaults init same req
  show ?thesis by simp
qed

section \<open>Failed requests\<close>

text \<open>
  C3 (error handling is logging only). The error callback of the grid's \<^verbatim>\<open>load\<close>
  appends three log entries and the error callback of \<^verbatim>\<open>loadContent\<close> appends one;
  neither changes anything else: data, the id arrays and their contents, items and URI
  stay as they were, no event is emitted and no request is issued.
\<close>

theorem error_callbacks_only_log:
  "load_error params textStatus errorThrown g =
     g\<lparr>logged := logged g @
          [[''An error occured while fetching data from: '' @ getUrl params g],
           [''textstatus: '' @ textStatus],
           [''errorthrown'', errorThrown]]\<rparr>
   \<and> data (load_error params textStatus errorThrown g) = data g
   \<and> allItemIds (load_error params textStatus errorThrown g) = allItemIds g
   \<and> selectedItemIds (load_error params textStatus errorThrown g) = selectedItemIds g
   \<and> heap (load_error params textStatus errorThrown g) = heap g
   \<and> emitted (load_error params textStatus errorThrown g) = emitted g
   \<and> requests (load_error params textStatus errorThrown g) = requests g
   \<and> loadContent_error error s = s\<lparr>sc_logged := sc_logged s @ [error]\<rparr>
   \<and> sc_items (loadContent_error error s) = sc_items s
   \<and> URI_str (loadContent_error error s) = URI_str s
   \<and> URI_hasChanged (loadContent_error error s) = URI_hasChanged s
   \<and> sc_emitted (loadContent_error error s) = sc_emitted s
   \<and> sc_requests (loadContent_error error s) = sc_requests s"
  by (simp add: load_error_def log_entry_def loadContent_error_def Let_def)

end
